theory Spec2Isabelle
  imports Main "HOL-Library.Sublist" "HOL-Library.AList"
begin

section \<open>JavaScript strings\<close>

text \<open>
  A JavaScript string is a sequence of UTF-16 code units. The embedding represents it as a
  \<^typ>\<open>string\<close> with one \<^typ>\<open>char\<close> per code unit, which covers the strings all of whose
  code units are below 256. On these, \<open>toLowerCase\<close> changes exactly the letters A-Z and the
  Latin-1 capitals U+00C0-U+00DE (U+00D7, the multiplication sign, is no letter), and
  \<open>trim\<close> removes the code units 9-13, 32 and 160 from both ends.
\<close>

definition startsWith :: "string \<Rightarrow> string \<Rightarrow> bool" where
  "startsWith s p = prefix p s"

definition endsWith :: "string \<Rightarrow> string \<Rightarrow> bool" where
  "endsWith s p = suffix p s"

definition isWhiteSpace :: "char \<Rightarrow> bool" where
  "isWhiteSpace c =
     (c \<in> set [CHR 0x09, CHR 0x0A, CHR 0x0B, CHR 0x0C, CHR 0x0D, CHR 0x20, CHR 0xA0])"

definition trim :: "string \<Rightarrow> string" where
  "trim s = rev (dropWhile isWhiteSpace (rev (dropWhile isWhiteSpace s)))"

definition toLowerChar :: "char \<Rightarrow> char" where
  "toLowerChar c =
     (let n = (of_char c :: nat)
      in if (65 \<le> n \<and> n \<le> 90) \<or> (192 \<le> n \<and> n \<le> 222 \<and> n \<noteq> 215)
         then char_of (n + 32) else c)"

definition toLowerCase :: "string \<Rightarrow> string" where
  "toLowerCase s = map toLowerChar s"

text \<open>\<open>s.indexOf(c)\<close> for a one-character needle; \<open>None\<close> stands for the result -1.\<close>

definition indexOf :: "string \<Rightarrow> char \<Rightarrow> nat option" where
  "indexOf s c = (if c \<in> set s then Some (length (takeWhile (\<lambda>x. x \<noteq> c) s)) else None)"

text \<open>\<open>s.split(sep)\<close> for a one-character separator: the empty string gives one empty segment.\<close>

fun split_str :: "char \<Rightarrow> string \<Rightarrow> string list" where
  "split_str sep [] = [[]]"
| "split_str sep (c # cs) =
     (if c = sep then [] # split_str sep cs
      else (case split_str sep cs of
              [] \<Rightarrow> [[c]]
            | p # ps \<Rightarrow> (c # p) # ps))"


section \<open>Command guard (command-guard.ts)\<close>

datatype command_mode = Blocklist | Allowlist

record SystemCommandsConfig =
  mode :: command_mode
  blocked :: "string list"
  allowed :: "string list"
  guestHelp :: "string option"
  blockResponse :: string

record PendingBlock =
  command :: string
  timestamp :: int

definition STALE_MS :: int where
  "STALE_MS = 10000"

definition extractCommand :: "string \<Rightarrow> string option" where
  "extractCommand trimmed =
     (if \<not> startsWith trimmed ''/'' then None
      else (case indexOf trimmed (CHR '' '') of
              None \<Rightarrow> Some trimmed
            | Some spaceIdx \<Rightarrow> Some (take spaceIdx trimmed)))"

text \<open>
  \<open>if (!command) return null\<close> leaves on \<open>null\<close> and on the empty string, the two falsy
  results \<open>extractCommand\<close> could have.
\<close>

definition matchBlockedCommand :: "string \<Rightarrow> SystemCommandsConfig \<Rightarrow> string option" where
  "matchBlockedCommand content config =
     (let trimmed = toLowerCase (trim content)
      in case extractCommand trimmed of
           None \<Rightarrow> None
         | Some cmd \<Rightarrow>
             if cmd = [] then None
             else if guestHelp config \<noteq> None \<and> cmd = ''/help'' then Some ''/help''
             else if mode config = Allowlist then
               (if cmd \<in> set (allowed config) then None else Some cmd)
             else if cmd \<in> set (blocked config) then Some cmd
             else None)"

text \<open>
  The module variable \<open>pendingBlock\<close> is passed explicitly, and so is the clock: \<open>now\<close> is
  the value \<open>Date.now()\<close> returns inside the call, in milliseconds.
\<close>

definition setPendingBlock :: "int \<Rightarrow> string \<Rightarrow> PendingBlock option \<Rightarrow> PendingBlock option" where
  "setPendingBlock now cmd pendingBlock = Some \<lparr>command = cmd, timestamp = now\<rparr>"

definition consumePendingBlock ::
  "int \<Rightarrow> PendingBlock option \<Rightarrow> string option \<times> PendingBlock option" where
  "consumePendingBlock now pendingBlock =
     (case pendingBlock of
        None \<Rightarrow> (None, None)
      | Some block \<Rightarrow>
          (if now - timestamp block > STALE_MS then None else Some (command block), None))"

definition getBlockResponse :: "string \<Rightarrow> SystemCommandsConfig \<Rightarrow> string" where
  "getBlockResponse cmd config =
     (case guestHelp config of
        Some help \<Rightarrow> if cmd = ''/help'' then help else blockResponse config
      | None \<Rightarrow> blockResponse config)"

text \<open>
  The command match as the specification words it: trim and lowercase, give up unless the
  result starts with a slash, take the head up to the first separator (the whole string
  when there is none), then apply the help interception and the mode. The separator is a
  parameter: the specification cuts at whitespace, the code at the space character.
\<close>

definition matchBlockedCommand_spec ::
  "(char \<Rightarrow> bool) \<Rightarrow> string \<Rightarrow> SystemCommandsConfig \<Rightarrow> string option" where
  "matchBlockedCommand_spec isSeparator content config =
     (let trimmed = toLowerCase (trim content);
          head = takeWhile (\<lambda>c. \<not> isSeparator c) trimmed
      in if \<not> startsWith trimmed ''/'' then None
         else if guestHelp config \<noteq> None \<and> head = ''/help'' then Some ''/help''
         else (case mode config of
                 Allowlist \<Rightarrow> if head \<in> set (allowed config) then None else Some head
               | Blocklist \<Rightarrow> if head \<in> set (blocked config) then Some head else None))"


section \<open>Session-key parser (session-key-parser.ts)\<close>

record ParsedSessionKey =
  peerId :: string
  channel :: "string option"
  peerKind :: string

definition PEER_KINDS :: "string list" where
  "PEER_KINDS = [''direct'', ''group'', ''channel'']"

text \<open>
  The loop \<open>for (let i = 2; i < parts.length - 1; i++)\<close>, entered at \<open>i = 2\<close>. Inside it
  \<open>i + 1\<close> is a valid index, so both reads are in range.
\<close>

function scanPeerKind :: "string list \<Rightarrow> nat \<Rightarrow> ParsedSessionKey option" where
  "scanPeerKind parts i =
     (if i + 1 < length parts then
        (if parts ! i \<in> set PEER_KINDS then
           (let pid = parts ! (i + 1)
            in if pid = [] then None
               else Some \<lparr>peerId = pid,
                          channel = (if i \<ge> 3 then Some (parts ! 2) else None),
                          peerKind = parts ! i\<rparr>)
         else scanPeerKind parts (i + 1))
      else None)"
  by pat_completeness auto
termination
  by (relation "measure (\<lambda>(parts, i). length parts - i)") auto

declare scanPeerKind.simps [simp del]

definition parseSessionKey :: "string \<Rightarrow> ParsedSessionKey option" where
  "parseSessionKey sessionKey =
     (let parts = split_str (CHR '':'') sessionKey
      in if length parts < 4 then None else scanPeerKind parts 2)"

text \<open>
  The parser as the specification words it: at least four segments; the first segment from
  index 2 on that is a peer kind; the segment after it is the peer id, and the parse fails
  when that segment is absent or empty; the channel is segment 2 when the peer kind sits at
  index 3 or later.
\<close>

definition parseSessionKey_spec :: "string \<Rightarrow> ParsedSessionKey option" where
  "parseSessionKey_spec sessionKey =
     (let segments = split_str (CHR '':'') sessionKey
      in if length segments < 4 then None
         else (case List.find (\<lambda>k. segments ! k \<in> set PEER_KINDS) [2..<length segments] of
                 None \<Rightarrow> None
               | Some k \<Rightarrow>
                   if k + 1 < length segments \<and> segments ! (k + 1) \<noteq> []
                   then Some \<lparr>peerId = segments ! (k + 1),
                              channel = (if 3 \<le> k then Some (segments ! 2) else None),
                              peerKind = segments ! k\<rparr>
                   else None))"

text \<open>A session key is its segments joined by colons.\<close>

fun joinSegments :: "string list \<Rightarrow> string" where
  "joinSegments [] = []"
| "joinSegments [s] = s"
| "joinSegments (s # t # ss) = s @ CHR '':'' # joinSegments (t # ss)"


section \<open>Objects used as dictionaries\<close>

text \<open>
  \<open>roles\<close> and \<open>toolGroups\<close> are plain objects filled by \<open>obj[key] = value\<close> and read by
  \<open>obj[key]\<close>. Both operations go through the prototype chain:
  \<^item> a read of a key the object does not own finds what \<open>Object.prototype\<close> defines
    under that name, a function for each name of \<open>OBJECT_PROTOTYPE_KEYS\<close>;
  \<^item> \<open>__proto__\<close> is an accessor of \<open>Object.prototype\<close>: reading it gives the prototype
    of the object, and assigning an object to it replaces that prototype and creates no
    property.
  \<open>own\<close> lists the own properties in the order \<open>Object.entries\<close> gives them (for a real
  object the keys are distinct, and integer-like keys come first); \<open>proto\<close> is \<open>None\<close>
  while the prototype is \<open>Object.prototype\<close>, and the value assigned to \<open>__proto__\<close>
  afterwards.
\<close>

record 'a js_object =
  own :: "(string \<times> 'a) list"
  proto :: "'a option"

definition emptyObject :: "'a js_object" where
  "emptyObject = \<lparr>own = [], proto = None\<rparr>"

definition OBJECT_PROTOTYPE_KEYS :: "string list" where
  "OBJECT_PROTOTYPE_KEYS =
     [''constructor'', ''hasOwnProperty'', ''isPrototypeOf'', ''propertyIsEnumerable'',
      ''toLocaleString'', ''toString'', ''valueOf'', ''__defineGetter__'',
      ''__defineSetter__'', ''__lookupGetter__'', ''__lookupSetter__'']"

text \<open>\<open>Array.prototype\<close>, as of ECMAScript 2023.\<close>

definition ARRAY_PROTOTYPE_KEYS :: "string list" where
  "ARRAY_PROTOTYPE_KEYS =
     [''at'', ''concat'', ''copyWithin'', ''entries'', ''every'', ''fill'', ''filter'', ''find'',
      ''findIndex'', ''findLast'', ''findLastIndex'', ''flat'', ''flatMap'', ''forEach'',
      ''includes'', ''indexOf'', ''join'', ''keys'', ''lastIndexOf'', ''map'', ''pop'', ''push'',
      ''reduce'', ''reduceRight'', ''reverse'', ''shift'', ''slice'', ''some'', ''sort'',
      ''splice'', ''toReversed'', ''toSorted'', ''toSpliced'', ''unshift'', ''values'', ''with'']"

definition assign :: "'a js_object \<Rightarrow> string \<Rightarrow> 'a \<Rightarrow> 'a js_object" where
  "assign obj key v =
     (if key = ''__proto__'' then obj\<lparr>proto := Some v\<rparr>
      else obj\<lparr>own := AList.update key v (own obj)\<rparr>)"

text \<open>The decimal name of an array index.\<close>

function decimal :: "nat \<Rightarrow> string" where
  "decimal n = (if n < 10 then [char_of (48 + n)] else decimal (n div 10) @ [char_of (48 + n mod 10)])"
  by pat_completeness auto
termination
  by (relation "measure id") auto

declare decimal.simps [simp del]


section \<open>Configuration (config.ts): types\<close>

datatype strings_or_star = Star | Strings "string list"

record RBACRoleConfig =
  users :: strings_or_star
  tools :: strings_or_star
  channels :: strings_or_star

record RateLimitConfig =
  maxBlockedPerMinute :: int
  action :: string

datatype fail_safe = Deny | Allow

datatype warning = EmptyTools string | EmptyChannels string

record RBACConfig =
  roles :: "RBACRoleConfig js_object"
  defaultRole :: string
  logBlocked :: bool
  logAllowed :: bool
  failSafe :: fail_safe
  toolGroups :: "string list js_object"
  rateLimit :: "RateLimitConfig option"
  systemCommands :: "SystemCommandsConfig option"
  warnings :: "warning list"

text \<open>
  What \<open>config.roles[key]\<close> evaluates to: \<open>undefined\<close>, a role object, or a value found on
  the prototype chain that is no role (a function, \<open>Object.prototype\<close>, or a field of the
  role assigned to \<open>__proto__\<close>). The last kind is truthy and has no property \<open>tools\<close>.
\<close>

datatype role_value = RoleUndefined | Role RBACRoleConfig | RoleForeign

definition getRole :: "RBACRoleConfig js_object \<Rightarrow> string \<Rightarrow> role_value" where
  "getRole obj key =
     (if key = ''__proto__'' then (case proto obj of Some r \<Rightarrow> Role r | None \<Rightarrow> RoleForeign)
      else (case map_of (own obj) key of
              Some r \<Rightarrow> Role r
            | None \<Rightarrow>
                if proto obj \<noteq> None \<and> key \<in> set [''users'', ''tools'', ''channels'']
                then RoleForeign
                else if key \<in> set OBJECT_PROTOTYPE_KEYS then RoleForeign
                else RoleUndefined))"

text \<open>
  What \<open>config.toolGroups[key]\<close> evaluates to: \<open>undefined\<close>, a list of tool names, or,
  through the prototype chain, one element of the array assigned to \<open>__proto__\<close>, its
  length, or a value that is neither a string nor iterable.
\<close>

datatype group_value =
  GroupUndefined | Group "string list" | GroupString string | GroupNumber nat | GroupForeign

definition getGroup :: "string list js_object \<Rightarrow> string \<Rightarrow> group_value" where
  "getGroup obj key =
     (if key = ''__proto__'' then (case proto obj of Some arr \<Rightarrow> Group arr | None \<Rightarrow> GroupForeign)
      else (case map_of (own obj) key of
              Some names \<Rightarrow> Group names
            | None \<Rightarrow>
                (case proto obj of
                   None \<Rightarrow> if key \<in> set OBJECT_PROTOTYPE_KEYS then GroupForeign else GroupUndefined
                 | Some arr \<Rightarrow>
                     if key = ''length'' then GroupNumber (length arr)
                     else (case List.find (\<lambda>i. decimal i = key) [0..<length arr] of
                             Some i \<Rightarrow> GroupString (arr ! i)
                           | None \<Rightarrow>
                               if key \<in> set ARRAY_PROTOTYPE_KEYS \<or> key \<in> set OBJECT_PROTOTYPE_KEYS
                               then GroupForeign else GroupUndefined))))"

definition truthy :: "group_value \<Rightarrow> bool" where
  "truthy v =
     (case v of
        GroupUndefined \<Rightarrow> False
      | Group names \<Rightarrow> True
      | GroupString s \<Rightarrow> s \<noteq> []
      | GroupNumber n \<Rightarrow> n \<noteq> 0
      | GroupForeign \<Rightarrow> True)"


section \<open>Tool guard (tool-guard.ts)\<close>

datatype error =
    TypeError
  | NotAnObject string
  | BadUsers string
  | BadTools string
  | BadChannels string
  | WildcardBeforeSpecific string string
  | NoRoles
  | DefaultRoleNotFound string
  | BadToolGroup string
  | BadFailSafe
  | BadRateLimit
  | BadMode
  | BadBlocked
  | BlockedRequired
  | BadAllowed
  | AllowedRequired
  | BadGuestHelp
  | BadBlockResponse
  | UnknownToolGroup string string

record ToolGuardResult =
  allowed_res :: bool
  role :: string
  reason :: "string option"

definition quoted :: "string \<Rightarrow> string" where
  "quoted s = CHR 0x22 # s @ [CHR 0x22]"

text \<open>
  The loop of \<open>expandTools\<close>, with the two arrays it pushes to as accumulator. Spreading
  \<open>...groupTools\<close> pushes the elements of an array and the characters of a string, and
  throws a TypeError on a value that is not iterable.
\<close>

fun expandLoop ::
  "string list \<Rightarrow> RBACConfig \<Rightarrow> string list \<times> string list \<Rightarrow> error + (string list \<times> string list)" where
  "expandLoop [] config acc = Inr acc"
| "expandLoop (entry # rest) config (exact, wildcards) =
     (if endsWith entry ''_*'' then expandLoop rest config (exact, wildcards @ [entry])
      else if startsWith entry ''@'' then
        (let groupName = drop 1 entry;
             groupTools = getGroup (toolGroups config) groupName
         in if truthy groupTools then
              (case groupTools of
                 Group names \<Rightarrow> expandLoop rest config (exact @ names, wildcards)
               | GroupString s \<Rightarrow> expandLoop rest config (exact @ map (\<lambda>c. [c]) s, wildcards)
               | _ \<Rightarrow> Inl TypeError)
            else expandLoop rest config (exact, wildcards))
      else expandLoop rest config (exact @ [entry], wildcards))"

definition expandTools :: "string list \<Rightarrow> RBACConfig \<Rightarrow> error + (string list \<times> string list)" where
  "expandTools toolList config = expandLoop toolList config ([], [])"

text \<open>The loop over the wildcard patterns; \<open>True\<close> is its early return.\<close>

fun wildcardLoop :: "string list \<Rightarrow> string \<Rightarrow> bool" where
  "wildcardLoop [] toolName = False"
| "wildcardLoop (pattern # rest) toolName =
     (let pre = butlast pattern
      in if startsWith toolName pre \<and> length toolName > length pre then True
         else wildcardLoop rest toolName)"

text \<open>
  A truthy \<open>role\<close> that is no role object has \<open>role.tools === undefined\<close>, and iterating
  over \<open>undefined\<close> in \<open>expandTools\<close> throws a TypeError.
\<close>

definition checkToolAccess :: "string \<Rightarrow> string \<Rightarrow> RBACConfig \<Rightarrow> error + ToolGuardResult" where
  "checkToolAccess toolName roleName config =
     (case getRole (roles config) roleName of
        RoleUndefined \<Rightarrow>
          Inr \<lparr>allowed_res = False, role = roleName,
               reason = Some (''Unknown role '' @ quoted roleName)\<rparr>
      | RoleForeign \<Rightarrow> Inl TypeError
      | Role r \<Rightarrow>
          (case tools r of
             Star \<Rightarrow> Inr \<lparr>allowed_res = True, role = roleName, reason = None\<rparr>
           | Strings toolList \<Rightarrow>
               (case expandTools toolList config of
                  Inl e \<Rightarrow> Inl e
                | Inr (exact, wildcards) \<Rightarrow>
                    if toolName \<in> set exact
                    then Inr \<lparr>allowed_res = True, role = roleName, reason = None\<rparr>
                    else if wildcardLoop wildcards toolName
                    then Inr \<lparr>allowed_res = True, role = roleName, reason = None\<rparr>
                    else Inr \<lparr>allowed_res = False, role = roleName,
                              reason = Some (''Role '' @ quoted roleName @
                                '' does not have access to tool '' @ quoted toolName)\<rparr>)))"

text \<open>A call allows the tool when it returns, and returns \<open>allowed: true\<close>.\<close>

definition allows :: "error + ToolGuardResult \<Rightarrow> bool" where
  "allows res = (case res of Inl e \<Rightarrow> False | Inr r \<Rightarrow> allowed_res r)"

text \<open>
  The wildcard rule as the specification words it: the prefix is the pattern minus its
  trailing character, and the tool name starts with it and is strictly longer.
\<close>

definition wildcardMatches :: "string \<Rightarrow> string \<Rightarrow> bool" where
  "wildcardMatches pattern toolName =
     (prefix (butlast pattern) toolName \<and> length (butlast pattern) < length toolName)"

text \<open>
  The exact bucket as the specification words it: the plain names plus the concatenated
  expansion of every \<open>@group\<close> reference, in the order of the list; an entry ending in
  \<open>_*\<close> adds nothing to it. A reference that reads a value which cannot be spread is the
  TypeError of the code.
\<close>

fun exactBucket :: "string list \<Rightarrow> RBACConfig \<Rightarrow> error + string list" where
  "exactBucket [] config = Inr []"
| "exactBucket (entry # rest) config =
     (if endsWith entry ''_*'' then exactBucket rest config
      else if startsWith entry ''@'' then
        (case getGroup (toolGroups config) (drop 1 entry) of
           GroupUndefined \<Rightarrow> exactBucket rest config
         | Group names \<Rightarrow>
             (case exactBucket rest config of Inl e \<Rightarrow> Inl e | Inr ex \<Rightarrow> Inr (names @ ex))
         | GroupString s \<Rightarrow>
             (case exactBucket rest config of Inl e \<Rightarrow> Inl e | Inr ex \<Rightarrow> Inr (map (\<lambda>c. [c]) s @ ex))
         | GroupNumber n \<Rightarrow> if n = 0 then exactBucket rest config else Inl TypeError
         | GroupForeign \<Rightarrow> Inl TypeError)
      else (case exactBucket rest config of Inl e \<Rightarrow> Inl e | Inr ex \<Rightarrow> Inr (entry # ex)))"


section \<open>Role resolver (role-resolver.ts)\<close>

text \<open>The loop over \<open>Object.entries(config.roles)\<close>; \<open>Some\<close> is its early return.\<close>

fun resolveLoop :: "(string \<times> RBACRoleConfig) list \<Rightarrow> string \<Rightarrow> string option \<Rightarrow> string option" where
  "resolveLoop [] peer chan = None"
| "resolveLoop ((roleName, r) # rest) peer chan =
     (let usersMatch = (case users r of Star \<Rightarrow> True | Strings us \<Rightarrow> peer \<in> set us)
      in if \<not> usersMatch then resolveLoop rest peer chan
         else
           (let channelsMatch =
                  (case channels r of
                     Star \<Rightarrow> True
                   | Strings cs \<Rightarrow> (case chan of None \<Rightarrow> False | Some c \<Rightarrow> c \<in> set cs))
            in if \<not> channelsMatch then resolveLoop rest peer chan
               else Some roleName))"

definition resolveRole :: "string \<Rightarrow> string option \<Rightarrow> RBACConfig \<Rightarrow> string" where
  "resolveRole peer chan config =
     (case resolveLoop (own (roles config)) peer chan of
        Some roleName \<Rightarrow> roleName
      | None \<Rightarrow> defaultRole config)"


section \<open>Configuration loader (config.ts)\<close>

text \<open>
  The untyped input: a value as a JSON document gives it. A number is an integer here, which
  leaves fractions out of the embedding. An object is the list of its own properties in
  \<open>Object.entries\<close> order, and \<open>field\<close> reads one of them, with \<open>None\<close> for
  \<open>undefined\<close>; none of the names the loader reads is defined on \<open>Object.prototype\<close>.
\<close>

datatype json =
    JNull
  | JBool bool
  | JNumber int
  | JString string
  | JArray "json list"
  | JObject "(string \<times> json) list"

definition field :: "(string \<times> json) list \<Rightarrow> string \<Rightarrow> json option" where
  "field obj key = map_of obj key"

text \<open>
  \<open>assertObject\<close> rejects every falsy value, every value whose \<open>typeof\<close> is not
  \<open>"object"\<close>, and arrays: only an object passes.
\<close>

definition assertObject :: "json option \<Rightarrow> string \<Rightarrow> error + (string \<times> json) list" where
  "assertObject v label =
     (case v of
        Some (JObject obj) \<Rightarrow> Inr obj
      | _ \<Rightarrow> Inl (NotAnObject label))"

text \<open>\<open>Array.isArray(value) && value.every((v) => typeof v === "string")\<close>, with the strings.\<close>

fun allStrings :: "json list \<Rightarrow> string list option" where
  "allStrings [] = Some []"
| "allStrings (JString s # vs) = (case allStrings vs of Some ss \<Rightarrow> Some (s # ss) | None \<Rightarrow> None)"
| "allStrings (v # vs) = None"

definition stringArray :: "json option \<Rightarrow> string list option" where
  "stringArray v = (case v of Some (JArray vs) \<Rightarrow> allStrings vs | _ \<Rightarrow> None)"

definition parseUsers :: "json option \<Rightarrow> string \<Rightarrow> error + strings_or_star" where
  "parseUsers v roleName =
     (if v = Some (JString ''*'') then Inr Star
      else (case stringArray v of Some ss \<Rightarrow> Inr (Strings ss) | None \<Rightarrow> Inl (BadUsers roleName)))"

definition parseTools :: "json option \<Rightarrow> string \<Rightarrow> error + strings_or_star" where
  "parseTools v roleName =
     (if v = Some (JString ''*'') then Inr Star
      else (case stringArray v of Some ss \<Rightarrow> Inr (Strings ss) | None \<Rightarrow> Inl (BadTools roleName)))"

definition parseChannels :: "json option \<Rightarrow> string \<Rightarrow> error + strings_or_star" where
  "parseChannels v roleName =
     (if v = None \<or> v = Some (JString ''*'') then Inr Star
      else (case stringArray v of Some ss \<Rightarrow> Inr (Strings ss) | None \<Rightarrow> Inl (BadChannels roleName)))"

fun toolGroupsLoop ::
  "(string \<times> json) list \<Rightarrow> string list js_object \<Rightarrow> error + string list js_object" where
  "toolGroupsLoop [] result = Inr result"
| "toolGroupsLoop ((name, v) # rest) result =
     (case stringArray (Some v) of
        None \<Rightarrow> Inl (BadToolGroup name)
      | Some names \<Rightarrow> toolGroupsLoop rest (assign result name names))"

definition parseToolGroups :: "json option \<Rightarrow> error + string list js_object" where
  "parseToolGroups v =
     (if v = None \<or> v = Some JNull then Inr emptyObject
      else (case assertObject v ''toolGroups'' of
              Inl e \<Rightarrow> Inl e
            | Inr obj \<Rightarrow> toolGroupsLoop obj emptyObject))"

definition parseRateLimit :: "json option \<Rightarrow> error + RateLimitConfig option" where
  "parseRateLimit v =
     (if v = None \<or> v = Some JNull then Inr None
      else (case assertObject v ''rateLimit'' of
              Inl e \<Rightarrow> Inl e
            | Inr obj \<Rightarrow>
                (case field obj ''maxBlockedPerMinute'' of
                   Some (JNumber n) \<Rightarrow>
                     if n < 1 then Inl BadRateLimit
                     else Inr (Some \<lparr>maxBlockedPerMinute = n, action = ''suppress-logs''\<rparr>)
                 | _ \<Rightarrow> Inl BadRateLimit)))"

definition normalizeCommands :: "string list \<Rightarrow> string list" where
  "normalizeCommands arr =
     map (\<lambda>cmd. let c = trim (toLowerCase cmd) in if startsWith c ''/'' then c else ''/'' @ c) arr"

definition parseSystemCommands :: "json option \<Rightarrow> error + SystemCommandsConfig option" where
  "parseSystemCommands v =
     (if v = None \<or> v = Some JNull then Inr None
      else (case assertObject v ''systemCommands'' of
              Inl e \<Rightarrow> Inl e
            | Inr obj \<Rightarrow>
                (let m = field obj ''mode'';
                     b = field obj ''blocked'';
                     a = field obj ''allowed'';
                     g = field obj ''guestHelp'';
                     resolvedMode = (if m = Some (JString ''allowlist'') then Allowlist else Blocklist)
                 in if m \<noteq> None \<and> m \<noteq> Some (JString ''blocklist'') \<and> m \<noteq> Some (JString ''allowlist'')
                    then Inl BadMode
                    else if b \<noteq> None \<and> b \<noteq> Some JNull \<and> stringArray b = None then Inl BadBlocked
                    else if resolvedMode = Blocklist \<and>
                            (case b of Some (JArray vs) \<Rightarrow> vs = [] | _ \<Rightarrow> True)
                    then Inl BlockedRequired
                    else if a \<noteq> None \<and> a \<noteq> Some JNull \<and> stringArray a = None then Inl BadAllowed
                    else if resolvedMode = Allowlist \<and>
                            (case a of Some (JArray vs) \<Rightarrow> False | _ \<Rightarrow> True)
                    then Inl AllowedRequired
                    else (case g of
                            Some (JBool x) \<Rightarrow> Inl BadGuestHelp
                          | Some (JNumber x) \<Rightarrow> Inl BadGuestHelp
                          | Some (JArray x) \<Rightarrow> Inl BadGuestHelp
                          | Some (JObject x) \<Rightarrow> Inl BadGuestHelp
                          | _ \<Rightarrow>
                              (case field obj ''blockResponse'' of
                                 Some (JString response) \<Rightarrow>
                                   Inr (Some
                                     \<lparr>mode = resolvedMode,
                                      blocked = (case stringArray b of
                                                   Some cs \<Rightarrow> normalizeCommands cs | None \<Rightarrow> []),
                                      allowed = (case stringArray a of
                                                   Some cs \<Rightarrow> normalizeCommands cs | None \<Rightarrow> []),
                                      guestHelp = (case g of Some (JString h) \<Rightarrow> Some h | _ \<Rightarrow> None),
                                      blockResponse = response\<rparr>)
                               | _ \<Rightarrow> Inl BadBlockResponse)))))"

definition parseFailSafe :: "json option \<Rightarrow> error + fail_safe" where
  "parseFailSafe v =
     (if v = None \<or> v = Some JNull then Inr Deny
      else if v = Some (JString ''deny'') then Inr Deny
      else if v = Some (JString ''allow'') then Inr Allow
      else Inl BadFailSafe)"


text \<open>
  The body of the loop over \<open>Object.entries(rolesRaw)\<close>. The state is the object
  \<open>roles\<close> built so far, the warnings, and \<open>firstWildcardRole\<close>.
\<close>

definition roleLoopBody ::
  "string \<times> json \<Rightarrow> RBACRoleConfig js_object \<times> warning list \<times> string option \<Rightarrow>
   error + (RBACRoleConfig js_object \<times> warning list \<times> string option)" where
  "roleLoopBody entry st =
     (case (entry, st) of
        ((roleName, roleRaw), (rolesObj, warns, firstWildcardRole)) \<Rightarrow>
          (case assertObject (Some roleRaw) (''roles.'' @ roleName) of
             Inl e \<Rightarrow> Inl e
           | Inr roleObj \<Rightarrow>
          (case parseUsers (field roleObj ''users'') roleName of
             Inl e \<Rightarrow> Inl e
           | Inr us \<Rightarrow>
          (case parseTools (field roleObj ''tools'') roleName of
             Inl e \<Rightarrow> Inl e
           | Inr ts \<Rightarrow>
          (case parseChannels (field roleObj ''channels'') roleName of
             Inl e \<Rightarrow> Inl e
           | Inr cs \<Rightarrow>
          (case (case us of
                   Star \<Rightarrow>
                     Inr (case firstWildcardRole of None \<Rightarrow> Some roleName | Some w \<Rightarrow> Some w)
                 | Strings specific \<Rightarrow>
                     (case firstWildcardRole of
                        Some w \<Rightarrow> Inl (WildcardBeforeSpecific w roleName)
                      | None \<Rightarrow> Inr None)) of
             Inl e \<Rightarrow> Inl e
           | Inr firstWildcardRole' \<Rightarrow>
               Inr (assign rolesObj roleName \<lparr>users = us, tools = ts, channels = cs\<rparr>,
                    warns @ (if ts = Strings [] then [EmptyTools roleName] else [])
                          @ (if cs = Strings [] then [EmptyChannels roleName] else []),
                    firstWildcardRole')))))))"

fun rolesLoop ::
  "(string \<times> json) list \<Rightarrow> RBACRoleConfig js_object \<times> warning list \<times> string option \<Rightarrow>
   error + (RBACRoleConfig js_object \<times> warning list \<times> string option)" where
  "rolesLoop [] st = Inr st"
| "rolesLoop (entry # rest) st =
     (case roleLoopBody entry st of
        Inl e \<Rightarrow> Inl e
      | Inr st' \<Rightarrow> rolesLoop rest st')"

text \<open>The two nested loops that check the \<open>@group\<close> references.\<close>

fun groupRefsOfRole :: "string \<Rightarrow> string list \<Rightarrow> string list js_object \<Rightarrow> error + unit" where
  "groupRefsOfRole roleName [] groups = Inr ()"
| "groupRefsOfRole roleName (tool # rest) groups =
     (if startsWith tool ''@'' \<and> \<not> truthy (getGroup groups (drop 1 tool))
      then Inl (UnknownToolGroup roleName tool)
      else groupRefsOfRole roleName rest groups)"

fun groupRefsLoop :: "(string \<times> RBACRoleConfig) list \<Rightarrow> string list js_object \<Rightarrow> error + unit" where
  "groupRefsLoop [] groups = Inr ()"
| "groupRefsLoop ((roleName, r) # rest) groups =
     (case tools r of
        Star \<Rightarrow> groupRefsLoop rest groups
      | Strings toolList \<Rightarrow>
          (case groupRefsOfRole roleName toolList groups of
             Inl e \<Rightarrow> Inl e
           | Inr u \<Rightarrow> groupRefsLoop rest groups))"

text \<open>
  \<open>rbacConfigSchema.parse\<close>. \<open>!roles[defaultRole]\<close> holds only when the read gives
  \<open>undefined\<close>: a role object is truthy, and so is whatever the prototype chain supplies.
\<close>

definition rbacConfigSchema_parse :: "json \<Rightarrow> error + RBACConfig" where
  "rbacConfigSchema_parse v =
     (case assertObject (Some v) ''rbac config'' of
        Inl e \<Rightarrow> Inl e
      | Inr cfg \<Rightarrow>
     (case assertObject (field cfg ''roles'') ''rbac config.roles'' of
        Inl e \<Rightarrow> Inl e
      | Inr rolesRaw \<Rightarrow>
     (case rolesLoop rolesRaw (emptyObject, [], None) of
        Inl e \<Rightarrow> Inl e
      | Inr (rolesObj, warns, firstWildcardRole) \<Rightarrow>
          if own rolesObj = [] then Inl NoRoles
          else
            (let dflt = (case field cfg ''defaultRole'' of Some (JString d) \<Rightarrow> d | _ \<Rightarrow> ''guest'')
             in if getRole rolesObj dflt = RoleUndefined then Inl (DefaultRoleNotFound dflt)
                else
     (case parseToolGroups (field cfg ''toolGroups'') of
        Inl e \<Rightarrow> Inl e
      | Inr groups \<Rightarrow>
     (case parseFailSafe (field cfg ''failSafe'') of
        Inl e \<Rightarrow> Inl e
      | Inr fs \<Rightarrow>
     (case parseRateLimit (field cfg ''rateLimit'') of
        Inl e \<Rightarrow> Inl e
      | Inr rl \<Rightarrow>
     (case parseSystemCommands (field cfg ''systemCommands'') of
        Inl e \<Rightarrow> Inl e
      | Inr sc \<Rightarrow>
     (case groupRefsLoop (own rolesObj) groups of
        Inl e \<Rightarrow> Inl e
      | Inr u \<Rightarrow>
          Inr \<lparr>roles = rolesObj,
               defaultRole = dflt,
               logBlocked = (field cfg ''logBlocked'' \<noteq> Some (JBool False)),
               logAllowed = (field cfg ''logAllowed'' = Some (JBool True)),
               failSafe = fs,
               toolGroups = groups,
               rateLimit = rl,
               systemCommands = sc,
               warnings = warns\<rparr>)))))))))"

text \<open>
  Words for the statements about the loop over the roles. \<open>rawUsers\<close> is the \<open>users\<close>
  value of an entry of the document as it stands; \<open>wellFormedUsers\<close> is the parsed
  \<open>users\<close> of an entry that is an object with valid \<open>users\<close>, \<open>tools\<close> and \<open>channels\<close>.
\<close>

definition rawUsers :: "string \<times> json \<Rightarrow> json option" where
  "rawUsers entry = (case snd entry of JObject obj \<Rightarrow> field obj ''users'' | _ \<Rightarrow> None)"

definition wellFormedUsers :: "string \<times> json \<Rightarrow> strings_or_star option" where
  "wellFormedUsers entry =
     (case snd entry of
        JObject obj \<Rightarrow>
          (case (parseUsers (field obj ''users'') (fst entry),
                 parseTools (field obj ''tools'') (fst entry),
                 parseChannels (field obj ''channels'') (fst entry)) of
             (Inr us, Inr ts, Inr cs) \<Rightarrow> Some us
           | _ \<Rightarrow> None)
      | _ \<Rightarrow> None)"

definition wildcardRole :: "string \<times> json \<Rightarrow> bool" where
  "wildcardRole entry = (wellFormedUsers entry = Some Star)"

definition specificRole :: "string \<times> json \<Rightarrow> bool" where
  "specificRole entry = (case wellFormedUsers entry of Some (Strings us) \<Rightarrow> True | _ \<Rightarrow> False)"


section \<open>Rate limiter (rate-limiter.ts)\<close>

definition WINDOW_MS :: int where
  "WINDOW_MS = 60000"

record PeerWindow =
  windowStart :: int
  logged :: nat
  suppressed :: nat

record RateLimiter =
  maxPerMinute :: int
  peers :: "string \<rightharpoonup> PeerWindow"

definition newRateLimiter :: "int \<Rightarrow> RateLimiter" where
  "newRateLimiter n = \<lparr>maxPerMinute = n, peers = Map.empty\<rparr>"

text \<open>
  \<open>shouldLog\<close> with the clock passed in: \<open>now\<close> is what \<open>Date.now()\<close> returns in the call.
  The window object is shared with the map, so the increments are stored.
\<close>

definition shouldLog :: "string \<Rightarrow> int \<Rightarrow> RateLimiter \<Rightarrow> bool \<times> RateLimiter" where
  "shouldLog peer now lim =
     (let fresh = \<lparr>windowStart = now, logged = 0, suppressed = 0\<rparr>;
          w = (case peers lim peer of
                 None \<Rightarrow> fresh
               | Some old \<Rightarrow> if now - windowStart old \<ge> WINDOW_MS then fresh else old)
      in if int (logged w) < maxPerMinute lim
         then (True, lim\<lparr>peers := (peers lim)(peer \<mapsto> w\<lparr>logged := logged w + 1\<rparr>)\<rparr>)
         else (False, lim\<lparr>peers := (peers lim)(peer \<mapsto> w\<lparr>suppressed := suppressed w + 1\<rparr>)\<rparr>))"

text \<open>A run of calls for one peer, at the given times; the results in order.\<close>

fun shouldLogAll :: "string \<Rightarrow> int list \<Rightarrow> RateLimiter \<Rightarrow> bool list" where
  "shouldLogAll peer [] lim = []"
| "shouldLogAll peer (now # later) lim =
     (case shouldLog peer now lim of (r, lim') \<Rightarrow> r # shouldLogAll peer later lim')"

text \<open>
  How many of the calls that returned \<open>true\<close> were made in the 60 seconds that start at
  \<open>start\<close>.
\<close>

definition loggedWithin :: "int \<Rightarrow> string \<Rightarrow> int list \<Rightarrow> RateLimiter \<Rightarrow> nat" where
  "loggedWithin start peer calls lim =
     length (filter (\<lambda>(now, r). r \<and> start \<le> now \<and> now < start + WINDOW_MS)
               (zip calls (shouldLogAll peer calls lim)))"

text \<open>
  Two notions for the proof of the window bound. \<open>windowBudget\<close> bounds how many calls at
  or after \<open>start\<close> can still return \<open>true\<close> before \<open>start + 60 s\<close>: what is left of the
  current window, plus a full window when the current one began before \<open>start\<close>.
  \<open>wellStarted\<close> holds of every state the limiter reaches: a window begins with the call
  that opens it, which is logged unless the maximum is below 1.
\<close>

definition windowBudget :: "int \<Rightarrow> string \<Rightarrow> RateLimiter \<Rightarrow> nat" where
  "windowBudget start peer lim =
     (let n = nat (maxPerMinute lim)
      in case peers lim peer of
           None \<Rightarrow> n
         | Some w \<Rightarrow> if start \<le> windowStart w then n - logged w else (n - logged w) + n)"

definition wellStarted :: "string \<Rightarrow> RateLimiter \<Rightarrow> bool" where
  "wellStarted peer lim =
     (case peers lim peer of
        None \<Rightarrow> True
      | Some w \<Rightarrow> maxPerMinute lim < 1 \<or> 1 \<le> logged w)"


section \<open>Properties of the command guard\<close>

lemma takeWhile_absent: "c \<notin> set t \<Longrightarrow> takeWhile (\<lambda>x. x \<noteq> c) t = t"
  by (induction t) auto

lemma extractCommand_head:
  "extractCommand t = (if startsWith t ''/'' then Some (takeWhile (\<lambda>c. c \<noteq> CHR '' '') t) else None)"
  by (simp add: extractCommand_def indexOf_def takeWhile_eq_take [symmetric] takeWhile_absent)

text \<open>
  C8. Whatever the slot holds and whatever the time, the slot is empty after
  \<open>consumePendingBlock\<close>; the call returns nothing when the slot was empty or the stored
  entry is more than 10 seconds old, and the stored command otherwise.
\<close>

theorem consumePendingBlock_clears:
  "snd (consumePendingBlock now slot) = None \<and>
   fst (consumePendingBlock now slot) =
     (case slot of
        None \<Rightarrow> None
      | Some block \<Rightarrow> if now - timestamp block > 10000 then None else Some (command block))"
  by (simp add: consumePendingBlock_def STALE_MS_def split: option.splits)

text \<open>
  C9. \<open>setPendingBlock\<close> overwrites the slot whatever it held, with the new command and
  the current time. The block armed before is lost: the next \<open>consumePendingBlock\<close>
  returns the newer command (or nothing, once that newer entry is itself more than 10
  seconds old), and it empties the slot.
\<close>

theorem setPendingBlock_last_write_wins:
  "setPendingBlock t2 new (setPendingBlock t1 old slot) = Some \<lparr>command = new, timestamp = t2\<rparr> \<and>
   setPendingBlock t2 new slot = Some \<lparr>command = new, timestamp = t2\<rparr> \<and>
   consumePendingBlock now (setPendingBlock t2 new (setPendingBlock t1 old slot)) =
     (if now - t2 > 10000 then None else Some new, None)"
  by (simp add: setPendingBlock_def consumePendingBlock_def STALE_MS_def)


lemma head_nonempty: "startsWith t ''/'' \<Longrightarrow> takeWhile (\<lambda>c. c \<noteq> CHR '' '') t \<noteq> []"
  by (cases t) (auto simp: startsWith_def)

text \<open>
  What the code computes: the head is cut at the first space character (U+0020) only, so
  that a tab or a line break after the command stays in the head.
\<close>

lemma matchBlockedCommand_head_to_first_space:
  "matchBlockedCommand content config =
     matchBlockedCommand_spec (\<lambda>c. c = CHR '' '') content config"
  by (cases "mode config")
     (simp_all add: matchBlockedCommand_def matchBlockedCommand_spec_def extractCommand_head
        head_nonempty Let_def)

text \<open>
  C6. The head is to be the prefix of the trimmed, lowercased content up to the first
  whitespace character. On the message \<open>/status\<close>, line break, \<open>now\<close>, with \<open>/status\<close>
  in the blocked list, the command match with that head returns \<open>/status\<close>; the code
  keeps the line break and the argument in the head, finds it in no list and returns
  nothing, so the blocked command is not intercepted.
\<close>

theorem matchBlockedCommand_line_break_not_blocked:
  "extractCommand (toLowerCase (trim (''/status'' @ [CHR 0x0A] @ ''now''))) =
     Some (''/status'' @ [CHR 0x0A] @ ''now'') \<and>
   matchBlockedCommand (''/status'' @ [CHR 0x0A] @ ''now'')
     \<lparr>mode = Blocklist, blocked = [''/status''], allowed = [], guestHelp = None,
      blockResponse = ''Not available''\<rparr> = None \<and>
   matchBlockedCommand_spec isWhiteSpace (''/status'' @ [CHR 0x0A] @ ''now'')
     \<lparr>mode = Blocklist, blocked = [''/status''], allowed = [], guestHelp = None,
      blockResponse = ''Not available''\<rparr> = Some ''/status''"
  by code_simp

text \<open>
  C7. When \<open>guestHelp\<close> is set, \<open>matchBlockedCommand\<close> returns \<open>/help\<close> for every
  message whose extracted head is \<open>/help\<close>, in both modes and whatever the allowed list
  holds; \<open>getBlockResponse\<close> returns the help text for \<open>/help\<close> and \<open>blockResponse\<close> for
  every other command.
\<close>

theorem guestHelp_intercepts_help:
  assumes "guestHelp config = Some help"
  shows "(extractCommand (toLowerCase (trim content)) = Some ''/help'' \<longrightarrow>
            matchBlockedCommand content config = Some ''/help'') \<and>
         getBlockResponse ''/help'' config = help \<and>
         (cmd \<noteq> ''/help'' \<longrightarrow> getBlockResponse cmd config = blockResponse config)"
  using assms by (simp add: matchBlockedCommand_def getBlockResponse_def)

theorem guestHelp_intercepts_help_witness:
  "guestHelp \<lparr>mode = Allowlist, blocked = [], allowed = [''/start'', ''/help''],
              guestHelp = Some ''Custom help'', blockResponse = ''Not available''\<rparr> = Some ''Custom help'' \<and>
   extractCommand (toLowerCase (trim ''  /HELP me'')) = Some ''/help'' \<and>
   matchBlockedCommand ''  /HELP me''
     \<lparr>mode = Allowlist, blocked = [], allowed = [''/start'', ''/help''],
      guestHelp = Some ''Custom help'', blockResponse = ''Not available''\<rparr> = Some ''/help'' \<and>
   getBlockResponse ''/help''
     \<lparr>mode = Allowlist, blocked = [], allowed = [''/start'', ''/help''],
      guestHelp = Some ''Custom help'', blockResponse = ''Not available''\<rparr> = ''Custom help'' \<and>
   getBlockResponse ''/status''
     \<lparr>mode = Allowlist, blocked = [], allowed = [''/start'', ''/help''],
      guestHelp = Some ''Custom help'', blockResponse = ''Not available''\<rparr> = ''Not available''"
proof -
  let ?cfg = "\<lparr>mode = Allowlist, blocked = [], allowed = [''/start'', ''/help''],
      guestHelp = Some ''Custom help'', blockResponse = ''Not available''\<rparr>"
  have h1: "guestHelp ?cfg = Some ''Custom help''" by simp
  have h2: "extractCommand (toLowerCase (trim ''  /HELP me'')) = Some ''/help''" by code_simp
  from guestHelp_intercepts_help [OF h1, of "''  /HELP me''" "''/status''"] h1 h2
  show ?thesis by simp
qed


section \<open>Properties of the session-key parser\<close>

lemma scanPeerKind_find:
  "scanPeerKind parts i =
     (case List.find (\<lambda>k. parts ! k \<in> set PEER_KINDS) [i..<length parts] of
        None \<Rightarrow> None
      | Some k \<Rightarrow>
          if k + 1 < length parts \<and> parts ! (k + 1) \<noteq> []
          then Some \<lparr>peerId = parts ! (k + 1),
                     channel = (if 3 \<le> k then Some (parts ! 2) else None),
                     peerKind = parts ! k\<rparr>
          else None)"
proof (induction parts i rule: scanPeerKind.induct)
  case (1 parts i)
  show ?case
  proof (cases "i + 1 < length parts")
    case True
    then have upt: "[i..<length parts] = i # [i + 1..<length parts]"
      by (simp add: upt_conv_Cons)
    show ?thesis
    proof (cases "parts ! i \<in> set PEER_KINDS")
      case kind: True
      with True upt show ?thesis
        by (subst scanPeerKind.simps) (simp add: Let_def)
    next
      case other: False
      with True upt "1.IH" show ?thesis
        by (subst scanPeerKind.simps) simp
    qed
  next
    case False
    then consider "length parts \<le> i" | "length parts = i + 1" by linarith
    then show ?thesis
    proof cases
      case 1
      then show ?thesis by (subst scanPeerKind.simps) simp
    next
      case 2
      then have "[i..<length parts] = [i]" by simp
      with 2 show ?thesis by (subst scanPeerKind.simps) simp
    qed
  qed
qed

lemma parseSessionKey_eq_spec: "parseSessionKey key = parseSessionKey_spec key"
  by (simp add: parseSessionKey_def parseSessionKey_spec_def scanPeerKind_find Let_def)

lemma split_str_no_sep: "sep \<notin> set s \<Longrightarrow> split_str sep s = [s]"
  by (induction s) auto

lemma split_str_append: "sep \<notin> set s \<Longrightarrow> split_str sep (s @ sep # rest) = s # split_str sep rest"
  by (induction s) auto

lemma split_str_join:
  "segs \<noteq> [] \<Longrightarrow> \<forall>s \<in> set segs. CHR '':'' \<notin> set s \<Longrightarrow>
   split_str (CHR '':'') (joinSegments segs) = segs"
  by (induction segs rule: joinSegments.induct) (auto simp: split_str_no_sep split_str_append)

lemma scanPeerKind_per_peer:
  "kind \<in> set PEER_KINDS \<Longrightarrow> pid \<noteq> [] \<Longrightarrow>
   scanPeerKind [a0, a1, kind, pid] 2 = Some \<lparr>peerId = pid, channel = None, peerKind = kind\<rparr>"
  by (subst scanPeerKind.simps) simp

lemma scanPeerKind_per_channel_peer:
  "kind \<in> set PEER_KINDS \<Longrightarrow> chan \<notin> set PEER_KINDS \<Longrightarrow> pid \<noteq> [] \<Longrightarrow>
   scanPeerKind [a0, a1, chan, kind, pid] 2 = Some \<lparr>peerId = pid, channel = Some chan, peerKind = kind\<rparr>"
  by (subst scanPeerKind.simps, simp, subst scanPeerKind.simps, simp)

lemma scanPeerKind_per_account_channel_peer:
  "kind \<in> set PEER_KINDS \<Longrightarrow> chan \<notin> set PEER_KINDS \<Longrightarrow> account \<notin> set PEER_KINDS \<Longrightarrow> pid \<noteq> [] \<Longrightarrow>
   scanPeerKind [a0, a1, chan, account, kind, pid] 2 = Some \<lparr>peerId = pid, channel = Some chan, peerKind = kind\<rparr>"
  by (subst scanPeerKind.simps, simp, subst scanPeerKind.simps, simp, subst scanPeerKind.simps, simp)


text \<open>
  C3 (amended). \<open>parseSessionKey\<close> computes what the specification's algorithm does, for
  every input string. For the key shapes with a peer segment, the returned peer id is the
  final segment provided no segment contains a colon and neither the channel segment nor
  the account segment is itself one of the words direct, group, channel (the group and the
  channel shape are the second shape with that peer kind).
\<close>

theorem parseSessionKey_first_peer_kind:
  "parseSessionKey key = parseSessionKey_spec key \<and>
   (kind \<in> set PEER_KINDS \<and> pid \<noteq> [] \<and> (\<forall>s \<in> set [agent, pid]. CHR '':'' \<notin> set s) \<longrightarrow>
      parseSessionKey (joinSegments [''agent'', agent, kind, pid]) =
        Some \<lparr>peerId = pid, channel = None, peerKind = kind\<rparr> \<and>
      last (split_str (CHR '':'') (joinSegments [''agent'', agent, kind, pid])) = pid) \<and>
   (kind \<in> set PEER_KINDS \<and> pid \<noteq> [] \<and> (\<forall>s \<in> set [agent, chan, pid]. CHR '':'' \<notin> set s) \<and>
    chan \<notin> set PEER_KINDS \<longrightarrow>
      parseSessionKey (joinSegments [''agent'', agent, chan, kind, pid]) =
        Some \<lparr>peerId = pid, channel = Some chan, peerKind = kind\<rparr> \<and>
      last (split_str (CHR '':'') (joinSegments [''agent'', agent, chan, kind, pid])) = pid) \<and>
   (kind \<in> set PEER_KINDS \<and> pid \<noteq> [] \<and> (\<forall>s \<in> set [agent, chan, account, pid]. CHR '':'' \<notin> set s) \<and>
    chan \<notin> set PEER_KINDS \<and> account \<notin> set PEER_KINDS \<longrightarrow>
      parseSessionKey (joinSegments [''agent'', agent, chan, account, kind, pid]) =
        Some \<lparr>peerId = pid, channel = Some chan, peerKind = kind\<rparr> \<and>
      last (split_str (CHR '':'') (joinSegments [''agent'', agent, chan, account, kind, pid])) = pid)"
proof -
  have kind_plain: "CHR '':'' \<notin> set kind" if "kind \<in> set PEER_KINDS"
    using that by (auto simp: PEER_KINDS_def)
  have s4: "split_str (CHR '':'') (joinSegments [''agent'', agent, kind, pid]) = [''agent'', agent, kind, pid]"
    if "kind \<in> set PEER_KINDS" "\<forall>s \<in> set [agent, pid]. CHR '':'' \<notin> set s"
    using that kind_plain by (intro split_str_join) auto
  have s5: "split_str (CHR '':'') (joinSegments [''agent'', agent, chan, kind, pid]) =
              [''agent'', agent, chan, kind, pid]"
    if "kind \<in> set PEER_KINDS" "\<forall>s \<in> set [agent, chan, pid]. CHR '':'' \<notin> set s"
    using that kind_plain by (intro split_str_join) auto
  have s6: "split_str (CHR '':'') (joinSegments [''agent'', agent, chan, account, kind, pid]) =
              [''agent'', agent, chan, account, kind, pid]"
    if "kind \<in> set PEER_KINDS" "\<forall>s \<in> set [agent, chan, account, pid]. CHR '':'' \<notin> set s"
    using that kind_plain by (intro split_str_join) auto
  show ?thesis
    using s4 s5 s6
    by (simp add: parseSessionKey_eq_spec [symmetric] parseSessionKey_def scanPeerKind_per_peer scanPeerKind_per_channel_peer scanPeerKind_per_account_channel_peer
          del: joinSegments.simps)
qed

theorem parseSessionKey_first_peer_kind_witness:
  "''direct'' \<in> set PEER_KINDS \<and> ''408001372'' \<noteq> [] \<and>
   CHR '':'' \<notin> set ''main'' \<and> CHR '':'' \<notin> set ''telegram'' \<and>
   CHR '':'' \<notin> set ''default'' \<and> CHR '':'' \<notin> set ''408001372'' \<and>
   ''telegram'' \<notin> set PEER_KINDS \<and> ''default'' \<notin> set PEER_KINDS \<and>
   parseSessionKey ''agent:main:main'' = parseSessionKey_spec ''agent:main:main'' \<and>
   parseSessionKey ''agent:main:direct:408001372'' =
     Some \<lparr>peerId = ''408001372'', channel = None, peerKind = ''direct''\<rparr> \<and>
   parseSessionKey ''agent:main:telegram:direct:408001372'' =
     Some \<lparr>peerId = ''408001372'', channel = Some ''telegram'', peerKind = ''direct''\<rparr> \<and>
   parseSessionKey ''agent:main:telegram:default:direct:408001372'' =
     Some \<lparr>peerId = ''408001372'', channel = Some ''telegram'', peerKind = ''direct''\<rparr> \<and>
   last (split_str (CHR '':'') ''agent:main:telegram:default:direct:408001372'') = ''408001372''"
  using parseSessionKey_first_peer_kind
    [of "''agent:main:main''" "''direct''" "''408001372''" "''main''" "''telegram''" "''default''"]
  by (simp add: PEER_KINDS_def)

text \<open>
  A key of the third shape whose account is named \<open>group\<close>: the scan stops at the account
  segment, and the peer id returned is \<open>direct\<close>, not the final segment.
\<close>

theorem parseSessionKey_final_segment_counterexample:
  "parseSessionKey (joinSegments [''agent'', ''main'', ''telegram'', ''group'', ''direct'', ''42'']) =
     Some \<lparr>peerId = ''direct'', channel = Some ''telegram'', peerKind = ''group''\<rparr> \<and>
   last (split_str (CHR '':'') (joinSegments [''agent'', ''main'', ''telegram'', ''group'', ''direct'', ''42''])) = ''42''"
  by code_simp



section \<open>Properties of the tool guard\<close>

lemma expandLoop_buckets:
  "expandLoop toolList config (exact, wildcards) =
     (case exactBucket toolList config of
        Inl e \<Rightarrow> Inl e
      | Inr ex \<Rightarrow> Inr (exact @ ex, wildcards @ filter (\<lambda>e. endsWith e ''_*'') toolList))"
  by (induction toolList arbitrary: exact wildcards)
     (auto simp: truthy_def Let_def split: group_value.splits sum.splits)

lemma expandTools_buckets:
  "expandTools toolList config =
     (case exactBucket toolList config of
        Inl e \<Rightarrow> Inl e
      | Inr ex \<Rightarrow> Inr (ex, filter (\<lambda>e. endsWith e ''_*'') toolList))"
  by (simp add: expandTools_def expandLoop_buckets split: sum.splits)

lemma wildcardLoop_iff:
  "wildcardLoop wildcards toolName \<longleftrightarrow> (\<exists>pattern \<in> set wildcards. wildcardMatches pattern toolName)"
  by (induction wildcards) (auto simp: wildcardMatches_def startsWith_def Let_def)

lemma checkToolAccess_allows_iff:
  assumes "getRole (roles config) roleName = Role r"
    and "tools r = Strings toolList"
    and "expandTools toolList config = Inr (exact, wildcards)"
  shows "allows (checkToolAccess toolName roleName config) \<longleftrightarrow>
           toolName \<in> set exact \<or> (\<exists>pattern \<in> set wildcards. wildcardMatches pattern toolName)"
  using assms by (simp add: checkToolAccess_def allows_def wildcardLoop_iff)

lemma exactBucket_skips_pattern:
  "endsWith entry ''_*'' \<Longrightarrow>
   exactBucket (before @ entry # after) config = exactBucket (before @ after) config"
  by (induction before) (auto split: group_value.splits sum.splits)

lemma at_prefix_kept:
  assumes "startsWith entry ''@''" and "endsWith entry ''_*''"
  shows "startsWith (butlast entry) ''@''"
proof -
  from assms(2) obtain body where e: "entry = body @ ''_*''"
    by (auto simp: endsWith_def suffix_def)
  with assms(1) have "body \<noteq> []" by (auto simp: startsWith_def)
  with e assms(1) show ?thesis
    by (cases body) (auto simp: startsWith_def butlast_append)
qed

text \<open>
  C1. When \<open>config.roles[roleName]\<close> is a role whose \<open>tools\<close> is a list, and the list
  expands to \<open>exact\<close> and \<open>wildcards\<close>, \<open>checkToolAccess\<close> allows the tool exactly when
  it is in \<open>exact\<close> or some pattern of \<open>wildcards\<close> matches: with the prefix being the
  pattern minus its last character, the tool name starts with the prefix and is strictly
  longer. So outside \<open>exact\<close> the tool is allowed if and only if a pattern matches; under
  the single entry \<open>exec_*\<close> the tool \<open>exec\<close> is denied and \<open>exec_shell\<close> allowed.
\<close>

theorem checkToolAccess_wildcard_rule:
  assumes "getRole (roles config) roleName = Role r"
    and "tools r = Strings toolList"
  shows "(expandTools toolList config = Inr (exact, wildcards) \<longrightarrow>
            (allows (checkToolAccess toolName roleName config) \<longleftrightarrow>
               toolName \<in> set exact \<or>
               (\<exists>pattern \<in> set wildcards.
                   startsWith toolName (butlast pattern) \<and>
                   length (butlast pattern) < length toolName))) \<and>
         (toolList = [''exec_*''] \<longrightarrow>
            \<not> allows (checkToolAccess ''exec'' roleName config) \<and>
            allows (checkToolAccess ''exec_shell'' roleName config))"
proof (intro conjI impI)
  assume "expandTools toolList config = Inr (exact, wildcards)"
  from checkToolAccess_allows_iff [OF assms this]
  show "allows (checkToolAccess toolName roleName config) \<longleftrightarrow>
          toolName \<in> set exact \<or>
          (\<exists>pattern \<in> set wildcards.
              startsWith toolName (butlast pattern) \<and>
              length (butlast pattern) < length toolName)"
    by (simp add: wildcardMatches_def startsWith_def)
next
  assume l: "toolList = [''exec_*'']"
  then have e: "expandTools toolList config = Inr ([], [''exec_*''])"
    by (simp add: expandTools_def endsWith_def suffix_def)
  show "\<not> allows (checkToolAccess ''exec'' roleName config)"
    by (simp add: checkToolAccess_allows_iff [OF assms e] wildcardMatches_def)
  show "allows (checkToolAccess ''exec_shell'' roleName config)"
    by (simp add: checkToolAccess_allows_iff [OF assms e] wildcardMatches_def)
qed

text \<open>
  C10. An entry that starts with \<open>@\<close> and ends with \<open>_*\<close> goes to the wildcard bucket
  as it is and is never looked up as a group, whatever \<open>toolGroups\<close> holds: the expansion
  of a list with the entry is the expansion of the list without it, with the entry added
  to the wildcards at its place. A tool name matching the entry begins with \<open>@\<close>, so a tool
  name that does not begin with \<open>@\<close> and is allowed to the role is allowed by the other
  entries alone.
\<close>

theorem at_wildcard_entry_is_pattern:
  assumes "startsWith entry ''@''" and "endsWith entry ''_*''"
  shows "expandTools (before @ entry # after) config =
           (case expandTools (before @ after) config of
              Inl e \<Rightarrow> Inl e
            | Inr (exact, wildcards) \<Rightarrow>
                Inr (exact, filter (\<lambda>e. endsWith e ''_*'') before @ entry #
                            filter (\<lambda>e. endsWith e ''_*'') after)) \<and>
         (startsWith toolName (butlast entry) \<longrightarrow> startsWith toolName ''@'') \<and>
         (getRole (roles config) roleName = Role r \<and>
          tools r = Strings (before @ entry # after) \<and>
          allows (checkToolAccess toolName roleName config) \<and>
          \<not> startsWith toolName ''@'' \<longrightarrow>
            (\<exists>exact wildcards.
                expandTools (before @ after) config = Inr (exact, wildcards) \<and>
                (toolName \<in> set exact \<or>
                 (\<exists>pattern \<in> set wildcards. wildcardMatches pattern toolName))))"
proof (intro conjI impI)
  show split: "expandTools (before @ entry # after) config =
           (case expandTools (before @ after) config of
              Inl e \<Rightarrow> Inl e
            | Inr (exact, wildcards) \<Rightarrow>
                Inr (exact, filter (\<lambda>e. endsWith e ''_*'') before @ entry #
                            filter (\<lambda>e. endsWith e ''_*'') after))"
    using assms(2)
    by (simp add: expandTools_buckets exactBucket_skips_pattern split: sum.splits)
  have kept: "startsWith (butlast entry) ''@''"
    using assms by (rule at_prefix_kept)
  show at: "startsWith toolName ''@''" if "startsWith toolName (butlast entry)"
    using that kept by (auto simp: startsWith_def)
  assume h: "getRole (roles config) roleName = Role r \<and>
          tools r = Strings (before @ entry # after) \<and>
          allows (checkToolAccess toolName roleName config) \<and>
          \<not> startsWith toolName ''@''"
  then have ok: "allows (checkToolAccess toolName roleName config)" by simp
  from h obtain exact wildcards where
    ex: "expandTools (before @ entry # after) config = Inr (exact, wildcards)"
    by (cases "expandTools (before @ entry # after) config")
       (auto simp: checkToolAccess_def allows_def)
  with split obtain wildcards' where
    ex': "expandTools (before @ after) config = Inr (exact, wildcards')"
    and wc: "wildcards = filter (\<lambda>e. endsWith e ''_*'') before @ entry #
                            filter (\<lambda>e. endsWith e ''_*'') after"
    by (auto split: sum.splits)
  from ex' have wc': "wildcards' = filter (\<lambda>e. endsWith e ''_*'') (before @ after)"
    by (auto simp: expandTools_buckets split: sum.splits)
  from h ex ok have "toolName \<in> set exact \<or> (\<exists>pattern \<in> set wildcards. wildcardMatches pattern toolName)"
    using checkToolAccess_allows_iff by blast
  moreover have "\<not> wildcardMatches entry toolName"
    using h at by (auto simp: wildcardMatches_def startsWith_def)
  ultimately have "toolName \<in> set exact \<or> (\<exists>pattern \<in> set wildcards'. wildcardMatches pattern toolName)"
    unfolding wc wc' by auto
  with ex' show "\<exists>exact wildcards.
                expandTools (before @ after) config = Inr (exact, wildcards) \<and>
                (toolName \<in> set exact \<or>
                 (\<exists>pattern \<in> set wildcards. wildcardMatches pattern toolName))"
    by blast
qed


theorem checkToolAccess_wildcard_rule_witness:
  "getRole (roles \<lparr>roles = \<lparr>own = [(''operator'', \<lparr>users = Strings [''7''], tools = Strings [''exec_*''], channels = Star\<rparr>)], proto = None\<rparr>,
      defaultRole = ''operator'', logBlocked = True, logAllowed = False, failSafe = Deny,
      toolGroups = emptyObject, rateLimit = None, systemCommands = None, warnings = []\<rparr>) ''operator'' =
     Role \<lparr>users = Strings [''7''], tools = Strings [''exec_*''], channels = Star\<rparr> \<and>
   expandTools [''exec_*''] \<lparr>roles = \<lparr>own = [(''operator'', \<lparr>users = Strings [''7''], tools = Strings [''exec_*''], channels = Star\<rparr>)], proto = None\<rparr>,
      defaultRole = ''operator'', logBlocked = True, logAllowed = False, failSafe = Deny,
      toolGroups = emptyObject, rateLimit = None, systemCommands = None, warnings = []\<rparr> = Inr ([], [''exec_*'']) \<and>
   \<not> allows (checkToolAccess ''exec'' ''operator'' \<lparr>roles = \<lparr>own = [(''operator'', \<lparr>users = Strings [''7''], tools = Strings [''exec_*''], channels = Star\<rparr>)], proto = None\<rparr>,
      defaultRole = ''operator'', logBlocked = True, logAllowed = False, failSafe = Deny,
      toolGroups = emptyObject, rateLimit = None, systemCommands = None, warnings = []\<rparr>) \<and>
   allows (checkToolAccess ''exec_shell'' ''operator'' \<lparr>roles = \<lparr>own = [(''operator'', \<lparr>users = Strings [''7''], tools = Strings [''exec_*''], channels = Star\<rparr>)], proto = None\<rparr>,
      defaultRole = ''operator'', logBlocked = True, logAllowed = False, failSafe = Deny,
      toolGroups = emptyObject, rateLimit = None, systemCommands = None, warnings = []\<rparr>)"
proof -
  let ?r = "\<lparr>users = Strings [''7''], tools = Strings [''exec_*''], channels = Star\<rparr>"
  let ?cfg = "\<lparr>roles = \<lparr>own = [(''operator'', ?r)], proto = None\<rparr>,
      defaultRole = ''operator'', logBlocked = True, logAllowed = False, failSafe = Deny,
      toolGroups = emptyObject, rateLimit = None, systemCommands = None, warnings = []\<rparr>"
  have h1: "getRole (roles ?cfg) ''operator'' = Role ?r" by (simp add: getRole_def)
  have h2: "tools ?r = Strings [''exec_*'']" by simp
  have h3: "expandTools [''exec_*''] ?cfg = Inr ([], [''exec_*''])"
    by (simp add: expandTools_def endsWith_def suffix_def)
  from checkToolAccess_wildcard_rule [OF h1 h2, of "[]" "[''exec_*'']" "''exec''"] h1 h3
  show ?thesis by simp
qed

theorem at_wildcard_entry_is_pattern_witness:
  "startsWith ''@news_*'' ''@'' \<and> endsWith ''@news_*'' ''_*'' \<and>
   getGroup (toolGroups \<lparr>roles = \<lparr>own = [(''guest'', \<lparr>users = Star, tools = Strings [''help'', ''@news_*''], channels = Star\<rparr>)], proto = None\<rparr>,
      defaultRole = ''guest'', logBlocked = True, logAllowed = False, failSafe = Deny,
      toolGroups = \<lparr>own = [(''news_*'', [''get_recent_news''])], proto = None\<rparr>,
      rateLimit = None, systemCommands = None, warnings = []\<rparr>) ''news_*'' = Group [''get_recent_news''] \<and>
   expandTools [''help'', ''@news_*''] \<lparr>roles = \<lparr>own = [(''guest'', \<lparr>users = Star, tools = Strings [''help'', ''@news_*''], channels = Star\<rparr>)], proto = None\<rparr>,
      defaultRole = ''guest'', logBlocked = True, logAllowed = False, failSafe = Deny,
      toolGroups = \<lparr>own = [(''news_*'', [''get_recent_news''])], proto = None\<rparr>,
      rateLimit = None, systemCommands = None, warnings = []\<rparr> = Inr ([''help''], [''@news_*'']) \<and>
   allows (checkToolAccess ''help'' ''guest'' \<lparr>roles = \<lparr>own = [(''guest'', \<lparr>users = Star, tools = Strings [''help'', ''@news_*''], channels = Star\<rparr>)], proto = None\<rparr>,
      defaultRole = ''guest'', logBlocked = True, logAllowed = False, failSafe = Deny,
      toolGroups = \<lparr>own = [(''news_*'', [''get_recent_news''])], proto = None\<rparr>,
      rateLimit = None, systemCommands = None, warnings = []\<rparr>) \<and>
   \<not> startsWith ''help'' ''@'' \<and>
   expandTools [''help''] \<lparr>roles = \<lparr>own = [(''guest'', \<lparr>users = Star, tools = Strings [''help'', ''@news_*''], channels = Star\<rparr>)], proto = None\<rparr>,
      defaultRole = ''guest'', logBlocked = True, logAllowed = False, failSafe = Deny,
      toolGroups = \<lparr>own = [(''news_*'', [''get_recent_news''])], proto = None\<rparr>,
      rateLimit = None, systemCommands = None, warnings = []\<rparr> = Inr ([''help''], []) \<and>
   \<not> allows (checkToolAccess ''get_recent_news'' ''guest'' \<lparr>roles = \<lparr>own = [(''guest'', \<lparr>users = Star, tools = Strings [''help'', ''@news_*''], channels = Star\<rparr>)], proto = None\<rparr>,
      defaultRole = ''guest'', logBlocked = True, logAllowed = False, failSafe = Deny,
      toolGroups = \<lparr>own = [(''news_*'', [''get_recent_news''])], proto = None\<rparr>,
      rateLimit = None, systemCommands = None, warnings = []\<rparr>)"
proof -
  let ?r = "\<lparr>users = Star, tools = Strings [''help'', ''@news_*''], channels = Star\<rparr>"
  let ?cfg = "\<lparr>roles = \<lparr>own = [(''guest'', ?r)], proto = None\<rparr>,
      defaultRole = ''guest'', logBlocked = True, logAllowed = False, failSafe = Deny,
      toolGroups = \<lparr>own = [(''news_*'', [''get_recent_news''])], proto = None\<rparr>,
      rateLimit = None, systemCommands = None, warnings = []\<rparr>"
  have h1: "startsWith ''@news_*'' ''@''" by (simp add: startsWith_def)
  have h2: "endsWith ''@news_*'' ''_*''" by (simp add: endsWith_def suffix_def)
  have g: "getGroup (toolGroups ?cfg) ''news_*'' = Group [''get_recent_news'']"
    by (simp add: getGroup_def)
  have a: "allows (checkToolAccess ''help'' ''guest'' ?cfg)" by code_simp
  have b: "\<not> allows (checkToolAccess ''get_recent_news'' ''guest'' ?cfg)" by code_simp
  have c: "expandTools [''help''] ?cfg = Inr ([''help''], [])" by code_simp
  have d: "\<not> startsWith ''help'' ''@''" by (simp add: startsWith_def)
  from at_wildcard_entry_is_pattern [OF h1 h2, of "[''help'']" "[]" ?cfg "''help''" "''guest''" ?r]
  have "expandTools [''help'', ''@news_*''] ?cfg = Inr ([''help''], [''@news_*''])"
    by (simp add: c endsWith_def suffix_def del: expandTools_def)
  with h1 h2 g a b c d show ?thesis by simp
qed



section \<open>Properties of the role resolver and the loader\<close>

lemma resolveLoop_key: "resolveLoop entries peer chan = Some name \<Longrightarrow> name \<in> fst ` set entries"
  by (induction entries) (auto simp: Let_def split: if_splits)

lemma resolveRole_key_or_default:
  "resolveRole peer chan config \<in> fst ` set (own (roles config)) \<or>
   resolveRole peer chan config = defaultRole config"
  by (auto simp: resolveRole_def split: option.splits dest: resolveLoop_key)

text \<open>
  C2. A document whose \<open>defaultRole\<close> is \<open>toString\<close>, with a single role \<open>admin\<close>: the load
  succeeds, because \<open>roles["toString"]\<close> finds the function of \<open>Object.prototype\<close> and is
  truthy. For a peer that no role matches, \<open>resolveRole\<close> returns \<open>toString\<close>, which is not a
  key of \<open>roles\<close>, and the tool guard called with that name throws.
\<close>

theorem defaultRole_inherited_name_accepted:
  "rbacConfigSchema_parse (JObject
      [(''roles'', JObject
          [(''admin'', JObject [(''users'', JArray [JString ''408001372'']), (''tools'', JString ''*'')])]),
       (''defaultRole'', JString ''toString'')]) =
     Inr \<lparr>roles = \<lparr>own = [(''admin'', \<lparr>users = Strings [''408001372''], tools = Star, channels = Star\<rparr>)],
                    proto = None\<rparr>,
          defaultRole = ''toString'', logBlocked = True, logAllowed = False, failSafe = Deny,
          toolGroups = \<lparr>own = [], proto = None\<rparr>, rateLimit = None, systemCommands = None,
          warnings = []\<rparr> \<and>
   resolveRole ''999111222'' (Some ''telegram'')
     \<lparr>roles = \<lparr>own = [(''admin'', \<lparr>users = Strings [''408001372''], tools = Star, channels = Star\<rparr>)],
               proto = None\<rparr>,
      defaultRole = ''toString'', logBlocked = True, logAllowed = False, failSafe = Deny,
      toolGroups = \<lparr>own = [], proto = None\<rparr>, rateLimit = None, systemCommands = None,
      warnings = []\<rparr> = ''toString'' \<and>
   ''toString'' \<notin> set (map fst [(''admin'', \<lparr>users = Strings [''408001372''], tools = Star, channels = Star\<rparr>)]) \<and>
   checkToolAccess ''exec'' ''toString''
     \<lparr>roles = \<lparr>own = [(''admin'', \<lparr>users = Strings [''408001372''], tools = Star, channels = Star\<rparr>)],
               proto = None\<rparr>,
      defaultRole = ''toString'', logBlocked = True, logAllowed = False, failSafe = Deny,
      toolGroups = \<lparr>own = [], proto = None\<rparr>, rateLimit = None, systemCommands = None,
      warnings = []\<rparr> = Inl TypeError"
  by code_simp

lemma body_wildcard:
  "wildcardRole (n, v) \<Longrightarrow>
   \<exists>ro' wa'. roleLoopBody (n, v) (ro, wa, fw) =
      Inr (ro', wa', Some (case fw of None \<Rightarrow> n | Some w \<Rightarrow> w))"
  by (auto simp: wildcardRole_def wellFormedUsers_def roleLoopBody_def assertObject_def
      split: json.splits sum.splits option.splits strings_or_star.splits)

lemma body_specific_first:
  "specificRole (n, v) \<Longrightarrow> \<exists>ro' wa'. roleLoopBody (n, v) (ro, wa, None) = Inr (ro', wa', None)"
  by (auto simp: specificRole_def wellFormedUsers_def roleLoopBody_def assertObject_def
      split: json.splits sum.splits option.splits strings_or_star.splits)

lemma body_specific_late:
  "specificRole (n, v) \<Longrightarrow> roleLoopBody (n, v) (ro, wa, Some w) = Inl (WildcardBeforeSpecific w n)"
  by (auto simp: specificRole_def wellFormedUsers_def roleLoopBody_def assertObject_def
      split: json.splits sum.splits option.splits strings_or_star.splits)

lemma loop_specific_prefix:
  "\<forall>e \<in> set before. specificRole e \<Longrightarrow>
   \<exists>ro' wa'. rolesLoop (before @ rest) (ro, wa, None) = rolesLoop rest (ro', wa', None)"
proof (induction before arbitrary: ro wa)
  case Nil
  then show ?case by auto
next
  case (Cons e before)
  obtain n v where e: "e = (n, v)" by (cases e)
  with Cons.prems have "specificRole (n, v)" by simp
  then obtain ro1 wa1 where "roleLoopBody (n, v) (ro, wa, None) = Inr (ro1, wa1, None)"
    using body_specific_first by blast
  moreover from Cons.prems have "\<forall>e \<in> set before. specificRole e" by simp
  from Cons.IH [OF this, of ro1 wa1] obtain ro' wa' where
    "rolesLoop (before @ rest) (ro1, wa1, None) = rolesLoop rest (ro', wa', None)" by blast
  ultimately show ?case using e by auto
qed

lemma loop_wildcard_run:
  "\<forall>e \<in> set middle. wildcardRole e \<Longrightarrow>
   \<exists>ro' wa'. rolesLoop (middle @ rest) (ro, wa, Some w) = rolesLoop rest (ro', wa', Some w)"
proof (induction middle arbitrary: ro wa)
  case Nil
  then show ?case by auto
next
  case (Cons e middle)
  obtain n v where e: "e = (n, v)" by (cases e)
  with Cons.prems have "wildcardRole (n, v)" by simp
  then obtain ro1 wa1 where "roleLoopBody (n, v) (ro, wa, Some w) = Inr (ro1, wa1, Some w)"
    using body_wildcard [of n v ro wa "Some w"] by auto
  moreover from Cons.prems have "\<forall>e \<in> set middle. wildcardRole e" by simp
  from Cons.IH [OF this, of ro1 wa1] obtain ro' wa' where
    "rolesLoop (middle @ rest) (ro1, wa1, Some w) = rolesLoop rest (ro', wa', Some w)" by blast
  ultimately show ?case using e by auto
qed

lemma loop_ordering_error:
  assumes "\<forall>e \<in> set before. specificRole e" and "wildcardRole (w, wv)"
    and "\<forall>e \<in> set middle. wildcardRole e" and "specificRole (s, sv)"
  shows "rolesLoop (before @ (w, wv) # middle @ (s, sv) # after) (ro, wa, None) =
           Inl (WildcardBeforeSpecific w s)"
proof -
  from loop_specific_prefix [OF assms(1)] obtain ro1 wa1 where
    1: "rolesLoop (before @ (w, wv) # middle @ (s, sv) # after) (ro, wa, None) =
        rolesLoop ((w, wv) # middle @ (s, sv) # after) (ro1, wa1, None)" by blast
  from body_wildcard [OF assms(2), of ro1 wa1 None] obtain ro2 wa2 where
    2: "roleLoopBody (w, wv) (ro1, wa1, None) = Inr (ro2, wa2, Some w)" by auto
  from loop_wildcard_run [OF assms(3)] obtain ro3 wa3 where
    3: "rolesLoop (middle @ (s, sv) # after) (ro2, wa2, Some w) =
        rolesLoop ((s, sv) # after) (ro3, wa3, Some w)" by blast
  show ?thesis
    by (simp add: 1 2 3 body_specific_late [OF assms(4)])
qed

lemma body_keeps_wildcard:
  "roleLoopBody e (ro, wa, Some w) = Inr (ro', wa', fw') \<Longrightarrow> fw' \<noteq> None"
  by (cases e)
     (auto simp: roleLoopBody_def split: sum.splits option.splits strings_or_star.splits)

lemma body_sets_wildcard:
  "rawUsers e = Some (JString ''*'') \<Longrightarrow> roleLoopBody e (ro, wa, fw) = Inr (ro', wa', fw') \<Longrightarrow>
   fw' \<noteq> None"
  by (cases e)
     (auto simp: roleLoopBody_def rawUsers_def assertObject_def parseUsers_def
        split: sum.splits option.splits strings_or_star.splits json.splits)

lemma body_specific_fails:
  "stringArray (rawUsers e) = Some specific \<Longrightarrow> \<exists>err. roleLoopBody e (ro, wa, Some w) = Inl err"
  by (cases e)
     (auto simp: roleLoopBody_def rawUsers_def assertObject_def parseUsers_def stringArray_def
        split: sum.splits option.splits strings_or_star.splits json.splits)

lemma loop_fails_after_wildcard:
  "e \<in> set rest \<Longrightarrow> stringArray (rawUsers e) = Some specific \<Longrightarrow>
   \<exists>err. rolesLoop rest (ro, wa, Some w) = Inl err"
proof (induction rest arbitrary: ro wa w)
  case Nil
  then show ?case by simp
next
  case (Cons x rest)
  show ?case
  proof (cases "roleLoopBody x (ro, wa, Some w)")
    case (Inl err)
    then show ?thesis by simp
  next
    case (Inr st')
    obtain ro' wa' fw' where st': "st' = (ro', wa', fw')" by (cases st')
    with Inr body_keeps_wildcard obtain w' where fw': "fw' = Some w'" by blast
    from Inr st' have "x \<noteq> e"
      using body_specific_fails [OF Cons.prems(2), of ro wa w] by auto
    with Cons.prems have "e \<in> set rest" by simp
    from Cons.IH [OF this Cons.prems(2), of ro' wa' w'] Inr st' fw'
    show ?thesis by simp
  qed
qed

lemma loop_fails:
  "i < j \<Longrightarrow> j < length rest \<Longrightarrow> rawUsers (rest ! i) = Some (JString ''*'') \<Longrightarrow>
   stringArray (rawUsers (rest ! j)) = Some specific \<Longrightarrow>
   \<exists>err. rolesLoop rest (ro, wa, fw) = Inl err"
proof (induction rest arbitrary: i j ro wa fw)
  case Nil
  then show ?case by simp
next
  case (Cons x rest)
  show ?case
  proof (cases "roleLoopBody x (ro, wa, fw)")
    case (Inl err)
    then show ?thesis by simp
  next
    case (Inr st')
    obtain ro' wa' fw' where st': "st' = (ro', wa', fw')" by (cases st')
    from Cons.prems obtain j' where j: "j = Suc j'" "j' < length rest" by (cases j) auto
    show ?thesis
    proof (cases i)
      case 0
      with Cons.prems have "rawUsers x = Some (JString ''*'')" by simp
      with Inr st' body_sets_wildcard obtain w' where "fw' = Some w'" by blast
      moreover from j have "rest ! j' \<in> set rest" by simp
      moreover from Cons.prems j have "stringArray (rawUsers (rest ! j')) = Some specific" by simp
      ultimately show ?thesis
        using loop_fails_after_wildcard [of "rest ! j'" rest specific ro' wa' w'] Inr st' by simp
    next
      case (Suc i')
      with Cons.prems j have "i' < j'" "rawUsers (rest ! i') = Some (JString ''*'')"
        "stringArray (rawUsers (rest ! j')) = Some specific" by simp_all
      from Cons.IH [OF this(1) j(2) this(2) this(3), of ro' wa' fw'] Inr st'
      show ?thesis by simp
    qed
  qed
qed


text \<open>
  C4 (amended). When, in the iteration order of \<open>roles\<close>, a role whose \<open>users\<close> is the
  wildcard precedes a role whose \<open>users\<close> is a list of strings, the loader fails. When
  moreover the roles are well-formed up to the first list-of-users role that follows the
  first wildcard role, the failure is the ordering diagnostic, and it names these two
  roles.
\<close>

theorem wildcard_before_specific_rejected:
  assumes "field cfg ''roles'' = Some (JObject rolesRaw)"
  shows "(i < j \<and> j < length rolesRaw \<and>
          rawUsers (rolesRaw ! i) = Some (JString ''*'') \<and>
          stringArray (rawUsers (rolesRaw ! j)) = Some specific \<longrightarrow>
            (\<exists>err. rbacConfigSchema_parse (JObject cfg) = Inl err)) \<and>
         (rolesRaw = before @ (w, wv) # middle @ (s, sv) # after \<and>
          (\<forall>e \<in> set before. specificRole e) \<and> wildcardRole (w, wv) \<and>
          (\<forall>e \<in> set middle. wildcardRole e) \<and> specificRole (s, sv) \<longrightarrow>
            rbacConfigSchema_parse (JObject cfg) = Inl (WildcardBeforeSpecific w s))"
proof (intro conjI impI)
  assume "i < j \<and> j < length rolesRaw \<and>
          rawUsers (rolesRaw ! i) = Some (JString ''*'') \<and>
          stringArray (rawUsers (rolesRaw ! j)) = Some specific"
  then obtain err where "rolesLoop rolesRaw (emptyObject, [], None) = Inl err"
    using loop_fails [of i j rolesRaw specific emptyObject "[]" None] by blast
  with assms show "\<exists>err. rbacConfigSchema_parse (JObject cfg) = Inl err"
    by (simp add: rbacConfigSchema_parse_def assertObject_def)
next
  assume "rolesRaw = before @ (w, wv) # middle @ (s, sv) # after \<and>
          (\<forall>e \<in> set before. specificRole e) \<and> wildcardRole (w, wv) \<and>
          (\<forall>e \<in> set middle. wildcardRole e) \<and> specificRole (s, sv)"
  then have "rolesLoop rolesRaw (emptyObject, [], None) = Inl (WildcardBeforeSpecific w s)"
    using loop_ordering_error by blast
  with assms show "rbacConfigSchema_parse (JObject cfg) = Inl (WildcardBeforeSpecific w s)"
    by (simp add: rbacConfigSchema_parse_def assertObject_def)
qed

theorem wildcard_before_specific_rejected_witness:
  "field [(''roles'', JObject
             [(''catchall'', JObject [(''users'', JString ''*''), (''tools'', JArray [JString ''help''])]),
              (''admin'', JObject [(''users'', JArray [JString ''408001372'']), (''tools'', JString ''*'')])]),
          (''defaultRole'', JString ''catchall'')] ''roles'' =
     Some (JObject
             [(''catchall'', JObject [(''users'', JString ''*''), (''tools'', JArray [JString ''help''])]),
              (''admin'', JObject [(''users'', JArray [JString ''408001372'']), (''tools'', JString ''*'')])]) \<and>
   rawUsers (''catchall'', JObject [(''users'', JString ''*''), (''tools'', JArray [JString ''help''])]) =
     Some (JString ''*'') \<and>
   stringArray (rawUsers (''admin'', JObject [(''users'', JArray [JString ''408001372'']), (''tools'', JString ''*'')])) =
     Some [''408001372''] \<and>
   wildcardRole (''catchall'', JObject [(''users'', JString ''*''), (''tools'', JArray [JString ''help''])]) \<and>
   specificRole (''admin'', JObject [(''users'', JArray [JString ''408001372'']), (''tools'', JString ''*'')]) \<and>
   rbacConfigSchema_parse (JObject
      [(''roles'', JObject
             [(''catchall'', JObject [(''users'', JString ''*''), (''tools'', JArray [JString ''help''])]),
              (''admin'', JObject [(''users'', JArray [JString ''408001372'']), (''tools'', JString ''*'')])]),
       (''defaultRole'', JString ''catchall'')]) =
     Inl (WildcardBeforeSpecific ''catchall'' ''admin'')"
proof -
  let ?c = "(''catchall'', JObject [(''users'', JString ''*''), (''tools'', JArray [JString ''help''])])"
  let ?a = "(''admin'', JObject [(''users'', JArray [JString ''408001372'']), (''tools'', JString ''*'')])"
  let ?cfg = "[(''roles'', JObject [?c, ?a]), (''defaultRole'', JString ''catchall'')]"
  have h: "field ?cfg ''roles'' = Some (JObject [?c, ?a])" by (simp add: field_def)
  have r1: "rawUsers ?c = Some (JString ''*'')" by (simp add: rawUsers_def field_def)
  have r2: "stringArray (rawUsers ?a) = Some [''408001372'']"
    by (simp add: rawUsers_def field_def stringArray_def)
  have w1: "wildcardRole ?c" by code_simp
  have w2: "specificRole ?a" by code_simp
  from wildcard_before_specific_rejected
         [OF h, of 0 1 "[''408001372'']" "[]" "''catchall''" "snd ?c" "[]" "''admin''" "snd ?a" "[]"]
       w1 w2
  have "rbacConfigSchema_parse (JObject ?cfg) = Inl (WildcardBeforeSpecific ''catchall'' ''admin'')"
    by simp
  with h r1 r2 w1 w2 show ?thesis by simp
qed

text \<open>
  A wildcard role before a role with a list of users that has no \<open>tools\<close>: the loader
  fails on the missing \<open>tools\<close>, and the diagnostic does not name the wildcard role.
\<close>

theorem wildcard_order_diagnostic_counterexample:
  "rawUsers (''catchall'', JObject [(''users'', JString ''*''), (''tools'', JArray [JString ''help''])]) =
     Some (JString ''*'') \<and>
   stringArray (rawUsers (''admin'', JObject [(''users'', JArray [JString ''408001372''])])) =
     Some [''408001372''] \<and>
   rbacConfigSchema_parse (JObject
      [(''roles'', JObject
             [(''catchall'', JObject [(''users'', JString ''*''), (''tools'', JArray [JString ''help''])]),
              (''admin'', JObject [(''users'', JArray [JString ''408001372''])])]),
       (''defaultRole'', JString ''catchall'')]) = Inl (BadTools ''admin'')"
  by code_simp


section \<open>Properties of the rate limiter\<close>

lemma loggedWithin_Cons:
  "loggedWithin start peer (now # later) lim =
     (if fst (shouldLog peer now lim) \<and> start \<le> now \<and> now < start + WINDOW_MS then 1 else 0) +
     loggedWithin start peer later (snd (shouldLog peer now lim))"
  by (simp add: loggedWithin_def split: prod.splits)

lemma loggedWithin_Nil: "loggedWithin start peer [] lim = 0"
  by (simp add: loggedWithin_def)

lemma shouldLog_max: "maxPerMinute (snd (shouldLog peer now lim)) = maxPerMinute lim"
  by (simp add: shouldLog_def Let_def)

lemma loggedWithin_outside:
  "\<forall>now \<in> set calls. start + WINDOW_MS \<le> now \<Longrightarrow> loggedWithin start peer calls lim = 0"
  by (induction calls arbitrary: lim) (auto simp: loggedWithin_Cons loggedWithin_Nil)

lemma loggedWithin_before:
  "now < start \<Longrightarrow>
   loggedWithin start peer (now # later) lim =
     loggedWithin start peer later (snd (shouldLog peer now lim))"
  by (simp add: loggedWithin_Cons)

lemma budget_step:
  assumes "start \<le> now"
    and "\<not> (case peers lim peer of
               None \<Rightarrow> False
             | Some w \<Rightarrow> start \<le> windowStart w \<and> now - windowStart w \<ge> WINDOW_MS)"
  shows "(if fst (shouldLog peer now lim) \<and> start \<le> now \<and> now < start + WINDOW_MS then 1 else 0) +
           windowBudget start peer (snd (shouldLog peer now lim)) \<le> windowBudget start peer lim"
  using assms
  by (auto simp: shouldLog_def windowBudget_def Let_def split: option.splits)

lemma loggedWithin_budget:
  "sorted calls \<Longrightarrow> \<forall>now \<in> set calls. start \<le> now \<Longrightarrow>
   loggedWithin start peer calls lim \<le> windowBudget start peer lim"
proof (induction calls arbitrary: lim)
  case Nil
  then show ?case by (simp add: loggedWithin_Nil)
next
  case (Cons now later)
  show ?case
  proof (cases "case peers lim peer of
                  None \<Rightarrow> False
                | Some w \<Rightarrow> start \<le> windowStart w \<and> now - windowStart w \<ge> WINDOW_MS")
    case True
    then have "start + WINDOW_MS \<le> now" by (auto split: option.splits)
    with Cons.prems(1) have "\<forall>t \<in> set (now # later). start + WINDOW_MS \<le> t" by auto
    then show ?thesis by (simp add: loggedWithin_outside)
  next
    case False
    from Cons.prems have "start \<le> now" by simp
    from budget_step [OF this False]
    have "(if fst (shouldLog peer now lim) \<and> start \<le> now \<and> now < start + WINDOW_MS then 1 else 0) +
            windowBudget start peer (snd (shouldLog peer now lim)) \<le> windowBudget start peer lim" .
    moreover from Cons.prems have "sorted later" "\<forall>t \<in> set later. start \<le> t" by simp_all
    from Cons.IH [OF this]
    have "loggedWithin start peer later (snd (shouldLog peer now lim)) \<le>
            windowBudget start peer (snd (shouldLog peer now lim))" .
    ultimately show ?thesis by (simp add: loggedWithin_Cons)
  qed
qed

lemma wellStarted_step: "wellStarted peer lim \<Longrightarrow> wellStarted peer (snd (shouldLog peer now lim))"
  by (auto simp: wellStarted_def shouldLog_def Let_def split: option.splits)

lemma wellStarted_new: "wellStarted peer (newRateLimiter n)"
  by (simp add: wellStarted_def newRateLimiter_def)

lemma budget_bound:
  "wellStarted peer lim \<Longrightarrow> windowBudget start peer lim \<le> 2 * nat (maxPerMinute lim) - 1"
  by (auto simp: wellStarted_def windowBudget_def Let_def split: option.splits)

lemma loggedWithin_bound:
  "sorted calls \<Longrightarrow> wellStarted peer lim \<Longrightarrow>
   loggedWithin start peer calls lim \<le> 2 * nat (maxPerMinute lim) - 1"
proof (induction calls arbitrary: lim)
  case Nil
  then show ?case by (simp add: loggedWithin_Nil)
next
  case (Cons now later)
  show ?case
  proof (cases "now < start")
    case True
    from Cons.prems have "sorted later" by simp
    from Cons.IH [OF this wellStarted_step [OF Cons.prems(2)]] True
    show ?thesis by (simp add: loggedWithin_before shouldLog_max)
  next
    case False
    with Cons.prems(1) have "\<forall>t \<in> set (now # later). start \<le> t" by auto
    from loggedWithin_budget [OF Cons.prems(1) this] budget_bound [OF Cons.prems(2)]
    show ?thesis by (rule order_trans)
  qed
qed

text \<open>
  C5 (amended). For a limiter constructed with maximum \<open>n\<close> and calls of one peer at
  nondecreasing times, at most \<open>2n - 1\<close> of the calls made within any 60 seconds return
  \<open>true\<close> (none when \<open>n\<close> is below 1, and \<open>n\<close> when \<open>n = 1\<close>): the window is fixed, it
  restarts with the first call 60 seconds or more after it began.
\<close>

theorem shouldLog_window_bound:
  "sorted calls \<Longrightarrow> loggedWithin start peer calls (newRateLimiter n) \<le> 2 * nat n - 1"
  using loggedWithin_bound [OF _ wellStarted_new, of calls start peer n]
  by (simp add: newRateLimiter_def)

theorem shouldLog_window_bound_witness:
  "sorted [0, 1, 60000, 60000 :: int] \<and>
   shouldLogAll ''peer-1'' [0, 1, 60000, 60000] (newRateLimiter 2) = [True, True, True, True] \<and>
   loggedWithin 1 ''peer-1'' [0, 1, 60000, 60000] (newRateLimiter 2) = 3 \<and>
   loggedWithin 1 ''peer-1'' [0, 1, 60000, 60000] (newRateLimiter 2) \<le> 2 * nat 2 - 1"
proof -
  have s: "sorted [0, 1, 60000, 60000 :: int]" by simp
  have a: "shouldLogAll ''peer-1'' [0, 1, 60000, 60000] (newRateLimiter 2) = [True, True, True, True]"
    by code_simp
  have b: "loggedWithin 1 ''peer-1'' [0, 1, 60000, 60000] (newRateLimiter 2) = 3"
    by code_simp
  from shouldLog_window_bound [OF s, of 1 "''peer-1''" 2] s a b show ?thesis by simp
qed

text \<open>
  Maximum 2: two calls are logged at the end of one window and two at the start of the next,
  three of them within 4 milliseconds.
\<close>

theorem shouldLog_window_counterexample:
  "sorted [0, 59998, 59999, 60000, 60001 :: int] \<and>
   shouldLogAll ''peer-1'' [0, 59998, 59999, 60000, 60001] (newRateLimiter 2) =
     [True, True, False, True, True] \<and>
   \<not> loggedWithin 59998 ''peer-1'' [0, 59998, 59999, 60000, 60001] (newRateLimiter 2) \<le> 2"
  by code_simp

end
